theory Spec2Isabelle
  imports Complex_Main "HOL-Library.Sublist"
begin

section \<open>Movie Lobby: data model\<close>

text \<open>
  The service is an Express router over one Mongoose collection. A stored document
  (\<^verbatim>\<open>IMovie\<close> of \<^verbatim>\<open>models/movie.ts\<close>) carries the store-assigned \<^verbatim>\<open>_id\<close> and the four
  schema fields. An ObjectId is modelled by the number it denotes; the rating, a JSON
  number, by a rational.
\<close>

type_synonym oid = nat

record movie =
  doc_id :: oid
  title :: string
  genre :: string
  rating :: rat
  streamingLink :: string

text \<open>
  A request body, after \<^verbatim>\<open>bodyParser.json()\<close>: each of the four schema paths is either
  absent (\<open>None\<close>) or carries a value of the schema's type. Keys outside the schema are
  dropped by Mongoose's strict mode and are not represented.
\<close>

record payload =
  p_title :: "string option"
  p_genre :: "string option"
  p_rating :: "rat option"
  p_streamingLink :: "string option"

text \<open>
  What the handlers act on: the collection in store-native (insertion) order, the
  ObjectId generator of the process, and whether the database answers at all.
\<close>

record world =
  docs :: "movie list"
  oid_counter :: nat
  connected :: bool

datatype body = Movies "movie list" | Doc movie | Message string

datatype response = Response (status: nat) (body: body)

section \<open>Auth middleware\<close>

text \<open>
  \<^verbatim>\<open>String.prototype.split\<close> with a one-character separator: the pieces between the
  separators, never an empty array.
\<close>

fun split_on :: "char \<Rightarrow> string \<Rightarrow> string list" where
  "split_on sep [] = [[]]"
| "split_on sep (c # cs) =
     (if c = sep then [] # split_on sep cs
      else (case split_on sep cs of
              [] \<Rightarrow> [[c]]
            | w # ws \<Rightarrow> (c # w) # ws))"

text \<open>
  \<^verbatim>\<open>req.headers.authorization?.split(' ')[1]\<close>: \<open>None\<close> is \<^verbatim>\<open>undefined\<close> (no header, or
  no second piece).
\<close>

definition extract_token :: "string option \<Rightarrow> string option" where
  "extract_token h =
     (case h of
        None \<Rightarrow> None
      | Some s \<Rightarrow> (case split_on CHR '' '' s of
                     _ # t # _ \<Rightarrow> Some t
                   | _ \<Rightarrow> None))"

text \<open>
  \<^verbatim>\<open>jwt.verify(token, process.env.JWT_SECRET)\<close> belongs to the jsonwebtoken library and
  is a parameter of the model: it throws (\<open>Inl\<close>) or returns the decoded payload, of
  which only the \<^verbatim>\<open>role\<close> claim is read. \<open>role = None\<close> stands for a payload without a
  string-valued role.
\<close>

datatype jwt_error = JsonWebTokenError

record decoded =
  role :: "string option"

type_synonym verifier = "string \<Rightarrow> jwt_error + decoded"

datatype gate = Next | Respond response

definition authenticateAdmin :: "verifier \<Rightarrow> string option \<Rightarrow> gate" where
  "authenticateAdmin verify h =
     (case extract_token h of
        None \<Rightarrow> Respond (Response 401 (Message ''Unauthorized''))
      | Some token \<Rightarrow>
          if token = [] then Respond (Response 401 (Message ''Unauthorized''))
          else (case verify token of
                  Inl e \<Rightarrow> Respond (Response 401 (Message ''Unauthorized''))
                | Inr d \<Rightarrow>
                    if role d \<noteq> Some ''admin''
                    then Respond (Response 403 (Message ''Forbidden''))
                    else Next))"

text \<open>
  An Express chain of one middleware and one handler: the handler runs only if the
  middleware called \<^verbatim>\<open>next()\<close>; otherwise the middleware's response is the answer and
  nothing else happens.
\<close>

definition chain :: "gate \<Rightarrow> (world \<Rightarrow> response \<times> world) \<Rightarrow> world \<Rightarrow> response \<times> world" where
  "chain g handler w = (case g of Respond r \<Rightarrow> (r, w) | Next \<Rightarrow> handler w)"

section \<open>The Mongoose model \<^verbatim>\<open>Movie\<close>\<close>

text \<open>
  The calls \<^verbatim>\<open>Movie.find\<close>, \<^verbatim>\<open>new Movie(...).save()\<close>, \<^verbatim>\<open>Movie.findByIdAndUpdate\<close> and
  \<^verbatim>\<open>Movie.findByIdAndDelete\<close> are Mongoose's. They are modelled after Mongoose's
  documentation, with the options the controller passes and no others. A call throws (\<open>Inl\<close>)
  when a value cannot be cast to the schema's type, when document validation fails, or
  when the database does not answer.
\<close>

datatype store_error = CastError | ValidationError | DriverError

text \<open>
  Casting the path parameter \<^verbatim>\<open>:id\<close> to an ObjectId: a string of exactly 24 hexadecimal
  digits, read as a number; anything else is a \<^verbatim>\<open>CastError\<close>.
\<close>

definition hex_value :: "char \<Rightarrow> nat option" where
  "hex_value c =
     (let n = (of_char c :: nat) in
      if 48 \<le> n \<and> n \<le> 57 then Some (n - 48)
      else if 97 \<le> n \<and> n \<le> 102 then Some (n - 87)
      else if 65 \<le> n \<and> n \<le> 70 then Some (n - 55)
      else None)"

fun hex_number :: "nat \<Rightarrow> string \<Rightarrow> nat option" where
  "hex_number acc [] = Some acc"
| "hex_number acc (c # cs) =
     (case hex_value c of
        None \<Rightarrow> None
      | Some d \<Rightarrow> hex_number (16 * acc + d) cs)"

definition castObjectId :: "string \<Rightarrow> oid option" where
  "castObjectId s = (if length s = 24 then hex_number 0 s else None)"

subsection \<open>\<^verbatim>\<open>MovieSchema\<close>\<close>

text \<open>
  \<^verbatim>\<open>required: true\<close> on a String path rejects an absent value and the empty string; on
  a Number path it rejects an absent value. \<^verbatim>\<open>min: 0\<close> and \<^verbatim>\<open>max: 10\<close> are checked on
  a rating that is there.
\<close>

fun required_string :: "string option \<Rightarrow> bool" where
  "required_string None = False"
| "required_string (Some s) = (s \<noteq> [])"

fun required_number :: "rat option \<Rightarrow> bool" where
  "required_number None = False"
| "required_number (Some r) = True"

fun min_max :: "rat \<Rightarrow> rat \<Rightarrow> rat option \<Rightarrow> bool" where
  "min_max lo hi None = True"
| "min_max lo hi (Some r) = (lo \<le> r \<and> r \<le> hi)"

definition MovieSchema :: "payload \<Rightarrow> bool" where
  "MovieSchema p \<longleftrightarrow>
     required_string (p_title p) \<and>
     required_string (p_genre p) \<and>
     required_number (p_rating p) \<and> min_max 0 10 (p_rating p) \<and>
     required_string (p_streamingLink p)"

text \<open>The fields of a stored document, read back as a payload.\<close>

definition fields_of :: "movie \<Rightarrow> payload" where
  "fields_of m =
     \<lparr>p_title = Some (title m), p_genre = Some (genre m),
      p_rating = Some (rating m), p_streamingLink = Some (streamingLink m)\<rparr>"

subsection \<open>Queries\<close>

text \<open>\<^verbatim>\<open>Movie.find()\<close>.\<close>

definition find_all :: "world \<Rightarrow> store_error + movie list" where
  "find_all w = (if connected w then Inr (docs w) else Inl DriverError)"

text \<open>
  \<^verbatim>\<open>new Movie({ title, genre, rating, streamingLink })\<close>: the document gets its \<^verbatim>\<open>_id\<close>
  from the generator when it is constructed, before anything is validated or written.
\<close>

definition new_Movie :: "payload \<Rightarrow> world \<Rightarrow> (oid \<times> payload) \<times> world" where
  "new_Movie p w = ((oid_counter w, p), w\<lparr>oid_counter := Suc (oid_counter w)\<rparr>)"

text \<open>
  \<^verbatim>\<open>newMovie.save()\<close>: validation against the schema first, then the insert, which
  appends to the collection.
\<close>

definition save :: "oid \<times> payload \<Rightarrow> world \<Rightarrow> store_error + movie \<times> world" where
  "save d w =
     (case d of (k, p) \<Rightarrow>
        if \<not> MovieSchema p then Inl ValidationError
        else (case (p_title p, p_genre p, p_rating p, p_streamingLink p) of
                (Some t, Some g, Some r, Some l) \<Rightarrow>
                  if \<not> connected w then Inl DriverError
                  else (let m = \<lparr>doc_id = k, title = t, genre = g, rating = r,
                                  streamingLink = l\<rparr>
                        in Inr (m, w\<lparr>docs := docs w @ [m]\<rparr>))
              | _ \<Rightarrow> Inl ValidationError))"

text \<open>
  The update document of \<^verbatim>\<open>findByIdAndUpdate\<close> sets the paths it names and leaves the
  others.
\<close>

definition apply_update :: "payload \<Rightarrow> movie \<Rightarrow> movie" where
  "apply_update p m =
     m\<lparr>title := (case p_title p of None \<Rightarrow> title m | Some t \<Rightarrow> t),
       genre := (case p_genre p of None \<Rightarrow> genre m | Some g \<Rightarrow> g),
       rating := (case p_rating p of None \<Rightarrow> rating m | Some r \<Rightarrow> r),
       streamingLink := (case p_streamingLink p of None \<Rightarrow> streamingLink m | Some l \<Rightarrow> l)\<rparr>"

fun update_first :: "oid \<Rightarrow> payload \<Rightarrow> movie list \<Rightarrow> (movie \<times> movie list) option" where
  "update_first k p [] = None"
| "update_first k p (m # ms) =
     (if doc_id m = k then Some (apply_update p m, apply_update p m # ms)
      else (case update_first k p ms of
              None \<Rightarrow> None
            | Some (u, ms') \<Rightarrow> Some (u, m # ms')))"

text \<open>
  \<^verbatim>\<open>Movie.findByIdAndUpdate(id, body, { new: true })\<close>. The controller does not pass
  \<^verbatim>\<open>runValidators\<close>, and update validators are off unless it is passed: the schema is
  not checked here. \<^verbatim>\<open>new: true\<close> returns the document as it is after the update;
  \<open>None\<close> is \<^verbatim>\<open>null\<close>, no document with that \<^verbatim>\<open>_id\<close>.
\<close>

definition findByIdAndUpdate ::
  "string \<Rightarrow> payload \<Rightarrow> world \<Rightarrow> store_error + movie option \<times> world" where
  "findByIdAndUpdate i p w =
     (case castObjectId i of
        None \<Rightarrow> Inl CastError
      | Some k \<Rightarrow>
          if \<not> connected w then Inl DriverError
          else (case update_first k p (docs w) of
                  None \<Rightarrow> Inr (None, w)
                | Some (u, ms) \<Rightarrow> Inr (Some u, w\<lparr>docs := ms\<rparr>)))"

fun delete_first :: "oid \<Rightarrow> movie list \<Rightarrow> (movie \<times> movie list) option" where
  "delete_first k [] = None"
| "delete_first k (m # ms) =
     (if doc_id m = k then Some (m, ms)
      else (case delete_first k ms of
              None \<Rightarrow> None
            | Some (d, ms') \<Rightarrow> Some (d, m # ms')))"

text \<open>\<^verbatim>\<open>Movie.findByIdAndDelete(id)\<close>.\<close>

definition findByIdAndDelete :: "string \<Rightarrow> world \<Rightarrow> store_error + movie option \<times> world" where
  "findByIdAndDelete i w =
     (case castObjectId i of
        None \<Rightarrow> Inl CastError
      | Some k \<Rightarrow>
          if \<not> connected w then Inl DriverError
          else (case delete_first k (docs w) of
                  None \<Rightarrow> Inr (None, w)
                | Some (d, ms) \<Rightarrow> Inr (Some d, w\<lparr>docs := ms\<rparr>)))"

subsection \<open>\<^verbatim>\<open>$regex\<close> with \<^verbatim>\<open>$options: 'i'\<close>\<close>

text \<open>
  The query string is handed to the database as a regular expression. The model covers
  the patterns built from literal characters and the wildcard \<^verbatim>\<open>.\<close>; a query with any
  other metacharacter is outside the model (\<open>None\<close>). Matching is unanchored: the
  pattern may match anywhere in the subject. Option \<^verbatim>\<open>i\<close> folds the case of ASCII letters.
\<close>

definition is_meta :: "char \<Rightarrow> bool" where
  "is_meta c \<longleftrightarrow> c \<in> set (CHR 0x5C # ''^$.|?*+()[]{}'')"

datatype atom = Lit char | AnyChar

fun compile :: "string \<Rightarrow> atom list option" where
  "compile [] = Some []"
| "compile (c # cs) =
     (if c = CHR ''.'' then map_option ((#) AnyChar) (compile cs)
      else if is_meta c then None
      else map_option ((#) (Lit c)) (compile cs))"

definition to_lower :: "char \<Rightarrow> char" where
  "to_lower c =
     (let n = (of_char c :: nat) in
      if 65 \<le> n \<and> n \<le> 90 then char_of (n + 32) else c)"

fun atom_matches :: "atom \<Rightarrow> char \<Rightarrow> bool" where
  "atom_matches (Lit a) c = (to_lower a = to_lower c)"
| "atom_matches AnyChar c = (c \<noteq> CHR 0x0A)"

fun match_here :: "atom list \<Rightarrow> string \<Rightarrow> bool" where
  "match_here [] s = True"
| "match_here (a # as) [] = False"
| "match_here (a # as) (c # cs) = (atom_matches a c \<and> match_here as cs)"

fun regex_search :: "atom list \<Rightarrow> string \<Rightarrow> bool" where
  "regex_search as [] = match_here as []"
| "regex_search as (c # cs) = (match_here as (c # cs) \<or> regex_search as cs)"

text \<open>
  \<^verbatim>\<open>Movie.find({ $or: [{ title: { $regex: q, $options: 'i' } },
  { genre: { $regex: q, $options: 'i' } }] })\<close>.
\<close>

definition find_regex :: "string \<Rightarrow> world \<Rightarrow> (store_error + movie list) option" where
  "find_regex q w =
     (case compile q of
        None \<Rightarrow> None
      | Some as \<Rightarrow>
          Some (if connected w
                then Inr (filter (\<lambda>m. regex_search as (title m) \<or> regex_search as (genre m))
                            (docs w))
                else Inl DriverError))"

section \<open>\<^verbatim>\<open>MovieController\<close>\<close>

definition listMovies :: "world \<Rightarrow> response \<times> world" where
  "listMovies w =
     (case find_all w of
        Inr movies \<Rightarrow> (Response 200 (Movies movies), w)
      | Inl e \<Rightarrow> (Response 500 (Message ''Server error''), w))"

definition searchMovies :: "string \<Rightarrow> world \<Rightarrow> (response \<times> world) option" where
  "searchMovies query w =
     (case find_regex query w of
        None \<Rightarrow> None
      | Some (Inr movies) \<Rightarrow> Some (Response 200 (Movies movies), w)
      | Some (Inl e) \<Rightarrow> Some (Response 500 (Message ''Server error''), w))"

definition addMovie :: "payload \<Rightarrow> world \<Rightarrow> response \<times> world" where
  "addMovie b w =
     (case new_Movie b w of (newMovie, w1) \<Rightarrow>
        (case save newMovie w1 of
           Inr (m, w2) \<Rightarrow> (Response 201 (Doc m), w2)
         | Inl e \<Rightarrow> (Response 400 (Message ''Invalid data''), w1)))"

definition updateMovie :: "string \<Rightarrow> payload \<Rightarrow> world \<Rightarrow> response \<times> world" where
  "updateMovie i b w =
     (case findByIdAndUpdate i b w of
        Inr (None, w') \<Rightarrow> (Response 404 (Message ''Movie not found''), w')
      | Inr (Some m, w') \<Rightarrow> (Response 200 (Doc m), w')
      | Inl e \<Rightarrow> (Response 400 (Message ''Invalid data''), w))"

definition deleteMovie :: "string \<Rightarrow> world \<Rightarrow> response \<times> world" where
  "deleteMovie i w =
     (case findByIdAndDelete i w of
        Inr (None, w') \<Rightarrow> (Response 404 (Message ''Movie not found''), w')
      | Inr (Some m, w') \<Rightarrow> (Response 200 (Message ''Movie deleted successfully''), w')
      | Inl e \<Rightarrow> (Response 500 (Message ''Server error''), w))"

section \<open>Routes\<close>

text \<open>
  The route table of \<^verbatim>\<open>routes/movieRoutes.ts\<close>, a request being one of the five
  method and path combinations with what the handler reads from it.
\<close>

datatype endpoint =
    GET_movies
  | GET_search string
  | POST_movies payload
  | PUT_movies string payload
  | DELETE_movies string

record request =
  authorization :: "string option"
  endpoint :: endpoint

fun mutating :: "endpoint \<Rightarrow> bool" where
  "mutating GET_movies = False"
| "mutating (GET_search q) = False"
| "mutating (POST_movies b) = True"
| "mutating (PUT_movies i b) = True"
| "mutating (DELETE_movies i) = True"

text \<open>The controller method each route ends in.\<close>

fun handler :: "endpoint \<Rightarrow> world \<Rightarrow> (response \<times> world) option" where
  "handler GET_movies w = Some (listMovies w)"
| "handler (GET_search q) w = searchMovies q w"
| "handler (POST_movies b) w = Some (addMovie b w)"
| "handler (PUT_movies i b) w = Some (updateMovie i b w)"
| "handler (DELETE_movies i) w = Some (deleteMovie i w)"

definition router :: "verifier \<Rightarrow> request \<Rightarrow> world \<Rightarrow> (response \<times> world) option" where
  "router verify req w =
     (case endpoint req of
        GET_movies \<Rightarrow> Some (listMovies w)
      | GET_search q \<Rightarrow> searchMovies q w
      | POST_movies b \<Rightarrow>
          Some (chain (authenticateAdmin verify (authorization req)) (addMovie b) w)
      | PUT_movies i b \<Rightarrow>
          Some (chain (authenticateAdmin verify (authorization req)) (updateMovie i b) w)
      | DELETE_movies i \<Rightarrow>
          Some (chain (authenticateAdmin verify (authorization req)) (deleteMovie i) w))"

section \<open>Vocabulary of the specification\<close>

text \<open>
  The specification's reading of the bearer token: the text following \<^verbatim>\<open>"Bearer "\<close> in
  the header, for comparison with what the middleware extracts.
\<close>

definition spec_bearer_token :: "string option \<Rightarrow> string option" where
  "spec_bearer_token h =
     (case h of
        None \<Rightarrow> None
      | Some s \<Rightarrow> if prefix ''Bearer '' s then Some (drop 7 s) else None)"

text \<open>
  The specification's reading of a search match: \<open>x\<close> occurs in \<open>s\<close> as a contiguous
  substring, letter case ignored.
\<close>

definition spec_contains_ci :: "string \<Rightarrow> string \<Rightarrow> bool" where
  "spec_contains_ci x s \<longleftrightarrow> sublist (map to_lower x) (map to_lower s)"

text \<open>
  The invariant of the collection: \<^verbatim>\<open>_id\<close> is unique, and every stored \<^verbatim>\<open>_id\<close> has
  been handed out by the generator already.
\<close>

definition wf_world :: "world \<Rightarrow> bool" where
  "wf_world w \<longleftrightarrow>
     distinct (map doc_id (docs w)) \<and> (\<forall>m \<in> set (docs w). doc_id m < oid_counter w)"

text \<open>
  What a request that reaches its handler leaves behind. \<^verbatim>\<open>searchMovies\<close> only calls
  \<^verbatim>\<open>Movie.find\<close>, which reads: whatever the query, also one whose answer the model of
  \<^verbatim>\<open>$regex\<close> leaves open, the world after a search is the world before it.
\<close>

fun effect :: "endpoint \<Rightarrow> world \<Rightarrow> world" where
  "effect GET_movies w = snd (listMovies w)"
| "effect (GET_search q) w = w"
| "effect (POST_movies b) w = snd (addMovie b w)"
| "effect (PUT_movies i b) w = snd (updateMovie i b w)"
| "effect (DELETE_movies i) w = snd (deleteMovie i w)"

text \<open>
  Any sequence of requests, served one after the other; the world after the last one.
\<close>

fun serve :: "endpoint list \<Rightarrow> world \<Rightarrow> world" where
  "serve [] w = w"
| "serve (ep # eps) w = serve eps (effect ep w)"

section \<open>Example data\<close>

text \<open>
  A token verifier with one admin token and one non-admin token, a stored record, a
  collection holding it, and some request bodies, for the concrete instances below.
\<close>

definition demo_verify :: verifier where
  "demo_verify t =
     (if t = ''admintoken'' then Inr \<lparr>role = Some ''admin''\<rparr>
      else if t = ''usertoken'' then Inr \<lparr>role = Some ''user''\<rparr>
      else Inl JsonWebTokenError)"

definition dune :: movie where
  "dune = \<lparr>doc_id = 1, title = ''Dune'', genre = ''Sci-Fi'', rating = 9,
            streamingLink = ''http://x''\<rparr>"

definition lobby :: world where
  "lobby = \<lparr>docs = [dune], oid_counter = 2, connected = True\<rparr>"

definition no_fields :: payload where
  "no_fields = \<lparr>p_title = None, p_genre = None, p_rating = None, p_streamingLink = None\<rparr>"

definition rating11 :: payload where
  "rating11 = \<lparr>p_title = None, p_genre = None, p_rating = Some 11, p_streamingLink = None\<rparr>"

definition untitled :: payload where
  "untitled = \<lparr>p_title = Some [], p_genre = Some ''Sci-Fi'', p_rating = Some 9,
                p_streamingLink = Some ''http://x''\<rparr>"

definition arrival :: payload where
  "arrival = \<lparr>p_title = Some ''Arrival'', p_genre = Some ''Sci-Fi'', p_rating = Some (17 / 2),
               p_streamingLink = Some ''http://y''\<rparr>"

section \<open>Properties of the auth gate\<close>

lemma demo_id: "castObjectId ''000000000000000000000001'' = Some 1"
  by (simp add: castObjectId_def hex_value_def)

text \<open>
  C1. On a mutating route (POST /movies, PUT /movies/:id, DELETE /movies/:id) the gate
  answers 401 when there is no token, 401 when verification of the token fails, 403
  when the verified role is not \<^verbatim>\<open>admin\<close>; in these three cases the answer is the gate's
  and the world is the one before the request, so the handler has not run and the store
  has not been reached. When verification succeeds with role \<^verbatim>\<open>admin\<close>, and only then,
  the gate calls \<^verbatim>\<open>next()\<close> and the request is answered by the route's handler.
\<close>

theorem gate_guards_mutating_routes:
  assumes "mutating ep"
  shows "(extract_token h = None \<or> extract_token h = Some [] \<longrightarrow>
            router verify \<lparr>authorization = h, endpoint = ep\<rparr> w =
              Some (Response 401 (Message ''Unauthorized''), w))
       \<and> (extract_token h = Some t \<and> t \<noteq> [] \<and> verify t = Inl e \<longrightarrow>
            router verify \<lparr>authorization = h, endpoint = ep\<rparr> w =
              Some (Response 401 (Message ''Unauthorized''), w))
       \<and> (extract_token h = Some t \<and> t \<noteq> [] \<and> verify t = Inr d \<and>
            role d \<noteq> Some ''admin'' \<longrightarrow>
            router verify \<lparr>authorization = h, endpoint = ep\<rparr> w =
              Some (Response 403 (Message ''Forbidden''), w))
       \<and> (extract_token h = Some t \<and> t \<noteq> [] \<and> verify t = Inr d \<and>
            role d = Some ''admin'' \<longrightarrow>
            router verify \<lparr>authorization = h, endpoint = ep\<rparr> w = handler ep w)
       \<and> (authenticateAdmin verify h = Next \<longleftrightarrow>
            (\<exists>t d. extract_token h = Some t \<and> t \<noteq> [] \<and> verify t = Inr d \<and>
                   role d = Some ''admin''))"
  using assms
  by (cases ep)
     (auto simp: router_def chain_def authenticateAdmin_def split: option.splits sum.splits)

theorem gate_guards_mutating_routes_witness:
  "mutating (DELETE_movies ''000000000000000000000001'')
   \<and> extract_token None = None
   \<and> router demo_verify
        \<lparr>authorization = None, endpoint = DELETE_movies ''000000000000000000000001''\<rparr> lobby
       = Some (Response 401 (Message ''Unauthorized''), lobby)
   \<and> extract_token (Some ''Bearer junk'') = Some ''junk''
   \<and> demo_verify ''junk'' = Inl JsonWebTokenError
   \<and> router demo_verify
        \<lparr>authorization = Some ''Bearer junk'',
           endpoint = DELETE_movies ''000000000000000000000001''\<rparr> lobby
       = Some (Response 401 (Message ''Unauthorized''), lobby)
   \<and> extract_token (Some ''Bearer usertoken'') = Some ''usertoken''
   \<and> demo_verify ''usertoken'' = Inr \<lparr>role = Some ''user''\<rparr>
   \<and> router demo_verify
        \<lparr>authorization = Some ''Bearer usertoken'',
           endpoint = DELETE_movies ''000000000000000000000001''\<rparr> lobby
       = Some (Response 403 (Message ''Forbidden''), lobby)
   \<and> extract_token (Some ''Bearer admintoken'') = Some ''admintoken''
   \<and> demo_verify ''admintoken'' = Inr \<lparr>role = Some ''admin''\<rparr>
   \<and> router demo_verify
        \<lparr>authorization = Some ''Bearer admintoken'',
           endpoint = DELETE_movies ''000000000000000000000001''\<rparr> lobby
       = Some (Response 200 (Message ''Movie deleted successfully''), lobby\<lparr>docs := []\<rparr>)"
proof -
  let ?ep = "DELETE_movies ''000000000000000000000001''"
  have m: "mutating ?ep" by simp
  have t0: "extract_token None = None"
    by (simp add: extract_token_def)
  have t1: "extract_token (Some ''Bearer junk'') = Some ''junk''"
    by (simp add: extract_token_def)
  have t2: "extract_token (Some ''Bearer usertoken'') = Some ''usertoken''"
    by (simp add: extract_token_def)
  have t3: "extract_token (Some ''Bearer admintoken'') = Some ''admintoken''"
    by (simp add: extract_token_def)
  have v1: "demo_verify ''junk'' = Inl JsonWebTokenError"
    by (simp add: demo_verify_def)
  have v2: "demo_verify ''usertoken'' = Inr \<lparr>role = Some ''user''\<rparr>"
    by (simp add: demo_verify_def)
  have v3: "demo_verify ''admintoken'' = Inr \<lparr>role = Some ''admin''\<rparr>"
    by (simp add: demo_verify_def)
  have d: "handler ?ep lobby =
             Some (Response 200 (Message ''Movie deleted successfully''), lobby\<lparr>docs := []\<rparr>)"
    by (simp add: deleteMovie_def findByIdAndDelete_def demo_id lobby_def dune_def)
  note g = gate_guards_mutating_routes [OF m, where verify = demo_verify and w = lobby]
  from g [where h = None] t0
  have r0: "router demo_verify \<lparr>authorization = None, endpoint = ?ep\<rparr> lobby
              = Some (Response 401 (Message ''Unauthorized''), lobby)"
    by simp
  from g [where h = "Some ''Bearer junk''" and t = "''junk''" and e = JsonWebTokenError] t1 v1
  have r1: "router demo_verify \<lparr>authorization = Some ''Bearer junk'', endpoint = ?ep\<rparr> lobby
              = Some (Response 401 (Message ''Unauthorized''), lobby)"
    by simp
  from g [where h = "Some ''Bearer usertoken''" and t = "''usertoken''"
            and d = "\<lparr>role = Some ''user''\<rparr>"] t2 v2
  have r2: "router demo_verify \<lparr>authorization = Some ''Bearer usertoken'', endpoint = ?ep\<rparr> lobby
              = Some (Response 403 (Message ''Forbidden''), lobby)"
    by simp
  from g [where h = "Some ''Bearer admintoken''" and t = "''admintoken''"
            and d = "\<lparr>role = Some ''admin''\<rparr>"] t3 v3 d
  have r3: "router demo_verify \<lparr>authorization = Some ''Bearer admintoken'', endpoint = ?ep\<rparr> lobby
              = Some (Response 200 (Message ''Movie deleted successfully''),
                      lobby\<lparr>docs := []\<rparr>)"
    by simp
  show ?thesis
    using m t0 t1 t2 t3 v1 v2 v3 r0 r1 r2 r3 by blast
qed

lemma split_on_no_sep: "sep \<notin> set s \<Longrightarrow> split_on sep s = [s]"
  by (induction s) auto

lemma split_on_append: "sep \<notin> set a \<Longrightarrow> split_on sep (a @ sep # b) = a # split_on sep b"
  by (induction a) auto

lemma split_on_Cons: "\<exists>w ws. split_on sep s = w # ws"
  by (induction s) (auto split: list.splits)

text \<open>
  C2, as amended. The token is the second space-separated piece of the Authorization
  header, whatever the word before the first space is: the scheme is not looked at. With
  a scheme and a token free of spaces, \<^verbatim>\<open>scheme token\<close> and \<^verbatim>\<open>scheme token rest\<close> both
  yield \<^verbatim>\<open>token\<close>, and for \<^verbatim>\<open>Bearer token\<close> this is the text following \<^verbatim>\<open>"Bearer "\<close>;
  if that token verifies with role \<^verbatim>\<open>admin\<close> the gate passes, under any scheme.
  A request with no header, with a header that has no space, or with an empty second
  piece is answered 401.
\<close>

theorem token_is_second_field:
  assumes "CHR '' '' \<notin> set scheme" and "CHR '' '' \<notin> set tok"
  shows "extract_token (Some (scheme @ '' '' @ tok)) = Some tok
       \<and> extract_token (Some (scheme @ '' '' @ tok @ '' '' @ rest)) = Some tok
       \<and> extract_token (Some (''Bearer '' @ tok)) = spec_bearer_token (Some (''Bearer '' @ tok))
       \<and> (tok \<noteq> [] \<and> verify tok = Inr d \<and> role d = Some ''admin'' \<longrightarrow>
            authenticateAdmin verify (Some (scheme @ '' '' @ tok)) = Next)
       \<and> extract_token None = None
       \<and> extract_token (Some scheme) = None
       \<and> (extract_token h = None \<or> extract_token h = Some [] \<longrightarrow>
            authenticateAdmin verify h = Respond (Response 401 (Message ''Unauthorized'')))"
proof (intro conjI impI)
  show first: "extract_token (Some (scheme @ '' '' @ tok)) = Some tok"
    using assms by (simp add: extract_token_def split_on_append split_on_no_sep)
  show "authenticateAdmin verify (Some (scheme @ '' '' @ tok)) = Next"
    if "tok \<noteq> [] \<and> verify tok = Inr d \<and> role d = Some ''admin''"
    using that first by (simp add: authenticateAdmin_def)
  show "extract_token (Some (scheme @ '' '' @ tok @ '' '' @ rest)) = Some tok"
    using assms split_on_Cons [of "CHR '' ''" rest]
    by (auto simp add: extract_token_def split_on_append)
  have "split_on CHR '' '' (''Bearer'' @ CHR '' '' # tok) = ''Bearer'' # split_on CHR '' '' tok"
    by (rule split_on_append) simp
  then show "extract_token (Some (''Bearer '' @ tok)) =
               spec_bearer_token (Some (''Bearer '' @ tok))"
    using assms by (simp add: extract_token_def spec_bearer_token_def split_on_no_sep)
  show "extract_token None = None"
    by (simp add: extract_token_def)
  show "extract_token (Some scheme) = None"
    using assms by (simp add: extract_token_def split_on_no_sep)
  assume "extract_token h = None \<or> extract_token h = Some []"
  then show "authenticateAdmin verify h = Respond (Response 401 (Message ''Unauthorized''))"
    by (auto simp: authenticateAdmin_def)
qed

theorem token_is_second_field_witness:
  "CHR '' '' \<notin> set ''Basic'' \<and> CHR '' '' \<notin> set ''admintoken''
   \<and> extract_token (Some ''Basic admintoken'') = Some ''admintoken''
   \<and> extract_token (Some ''Basic admintoken x'') = Some ''admintoken''
   \<and> demo_verify ''admintoken'' = Inr \<lparr>role = Some ''admin''\<rparr>
   \<and> authenticateAdmin demo_verify (Some ''Basic admintoken'') = Next
   \<and> extract_token (Some ''Bearer admintoken'') = spec_bearer_token (Some ''Bearer admintoken'')
   \<and> extract_token (Some ''Basic'') = None
   \<and> extract_token (Some ''Bearer '') = Some []
   \<and> authenticateAdmin demo_verify (Some ''Bearer '')
       = Respond (Response 401 (Message ''Unauthorized''))"
proof -
  have s: "CHR '' '' \<notin> set ''Basic''" "CHR '' '' \<notin> set ''admintoken''"
    by simp_all
  have e: "extract_token (Some ''Bearer '') = Some []"
    by (simp add: extract_token_def)
  have v: "demo_verify ''admintoken'' = Inr \<lparr>role = Some ''admin''\<rparr>"
    by (simp add: demo_verify_def)
  from token_is_second_field [OF s, where rest = "''x''" and h = "Some ''Bearer ''"
                                 and verify = demo_verify and d = "\<lparr>role = Some ''admin''\<rparr>"] s e v
  show ?thesis by simp
qed

text \<open>
  C2 as stated fails: a header of another scheme, \<^verbatim>\<open>Basic admintoken\<close>, carries no
  bearer token in the specification's reading, yet the gate lets it through and the
  record is deleted. And for \<^verbatim>\<open>Bearer a b\<close> the middleware's token is \<^verbatim>\<open>a\<close>, not the
  text following \<^verbatim>\<open>"Bearer "\<close>.
\<close>

theorem scheme_not_checked_counterexample:
  "spec_bearer_token (Some ''Basic admintoken'') = None
   \<and> authenticateAdmin demo_verify (Some ''Basic admintoken'') = Next
   \<and> router demo_verify
        \<lparr>authorization = Some ''Basic admintoken'',
           endpoint = DELETE_movies ''000000000000000000000001''\<rparr> lobby
       = Some (Response 200 (Message ''Movie deleted successfully''), lobby\<lparr>docs := []\<rparr>)
   \<and> spec_bearer_token (Some ''Bearer a b'') = Some ''a b''
   \<and> extract_token (Some ''Bearer a b'') = Some ''a''"
  by (simp add: spec_bearer_token_def authenticateAdmin_def extract_token_def demo_verify_def
        router_def chain_def deleteMovie_def findByIdAndDelete_def demo_id lobby_def dune_def)

section \<open>Properties of \<^verbatim>\<open>addMovie\<close>\<close>

text \<open>
  C5, as amended. A payload that carries all four fields, with title, genre and
  streaming link non-empty and the rating within [0, 10], is answered 201 when the
  database answers; the created record has the payload's title, genre, rating and
  streaming link and a fresh \<^verbatim>\<open>_id\<close>, and is appended to the collection.
\<close>

theorem addMovie_accepts_valid:
  assumes "p_title b = Some t" and "p_genre b = Some g" and "p_rating b = Some r"
    and "p_streamingLink b = Some l"
    and "t \<noteq> []" and "g \<noteq> []" and "l \<noteq> []" and "0 \<le> r" and "r \<le> 10"
    and "connected w"
  shows "addMovie b w =
           (Response 201
              (Doc \<lparr>doc_id = oid_counter w, title = t, genre = g, rating = r,
                    streamingLink = l\<rparr>),
            w\<lparr>oid_counter := Suc (oid_counter w),
              docs := docs w @ [\<lparr>doc_id = oid_counter w, title = t, genre = g, rating = r,
                                 streamingLink = l\<rparr>]\<rparr>)"
  using assms by (simp add: addMovie_def new_Movie_def save_def MovieSchema_def Let_def)

theorem addMovie_accepts_valid_witness:
  "p_title arrival = Some ''Arrival'' \<and> p_genre arrival = Some ''Sci-Fi''
   \<and> p_rating arrival = Some (17 / 2) \<and> p_streamingLink arrival = Some ''http://y''
   \<and> (0::rat) \<le> 17 / 2 \<and> (17 / 2 :: rat) \<le> 10 \<and> connected lobby
   \<and> addMovie arrival lobby =
       (Response 201
          (Doc \<lparr>doc_id = 2, title = ''Arrival'', genre = ''Sci-Fi'', rating = 17 / 2,
                streamingLink = ''http://y''\<rparr>),
        lobby\<lparr>oid_counter := 3,
          docs := [dune, \<lparr>doc_id = 2, title = ''Arrival'', genre = ''Sci-Fi'', rating = 17 / 2,
                          streamingLink = ''http://y''\<rparr>]\<rparr>)"
proof -
  have f: "p_title arrival = Some ''Arrival''" "p_genre arrival = Some ''Sci-Fi''"
    "p_rating arrival = Some (17 / 2)" "p_streamingLink arrival = Some ''http://y''"
    by (simp_all add: arrival_def)
  have n: "''Arrival'' \<noteq> []" "''Sci-Fi'' \<noteq> []" "''http://y'' \<noteq> []"
    by simp_all
  have r: "(0::rat) \<le> 17 / 2" "(17 / 2 :: rat) \<le> 10"
    by simp_all
  have c: "connected lobby"
    by (simp add: lobby_def)
  have "oid_counter lobby = 2" "docs lobby = [dune]"
    by (simp_all add: lobby_def)
  with addMovie_accepts_valid [OF f n r c] f r c show ?thesis
    by simp
qed

text \<open>
  C5 as stated fails: a payload whose four fields are all present and whose rating is 9,
  but whose title is the empty string, is answered 400.
\<close>

theorem empty_title_rejected_counterexample:
  "p_title untitled \<noteq> None \<and> p_genre untitled \<noteq> None \<and> p_streamingLink untitled \<noteq> None
   \<and> p_rating untitled = Some 9 \<and> (0::rat) \<le> 9 \<and> (9::rat) \<le> 10
   \<and> connected lobby
   \<and> addMovie untitled lobby =
       (Response 400 (Message ''Invalid data''), lobby\<lparr>oid_counter := 3\<rparr>)"
  by (simp add: addMovie_def new_Movie_def save_def MovieSchema_def untitled_def lobby_def)

text \<open>
  C6. A payload whose rating is below 0 or above 10, or in which any of title, genre,
  rating and streaming link is missing, is answered 400 \<^verbatim>\<open>Invalid data\<close>, and the
  collection is as it was before the request.
\<close>

theorem addMovie_rejects_invalid:
  assumes "p_title b = None \<or> p_genre b = None \<or> p_rating b = None \<or> p_streamingLink b = None
           \<or> (\<exists>r. p_rating b = Some r \<and> (r < 0 \<or> 10 < r))"
  shows "fst (addMovie b w) = Response 400 (Message ''Invalid data'')
       \<and> docs (snd (addMovie b w)) = docs w"
  using assms
  by (auto simp: addMovie_def new_Movie_def save_def MovieSchema_def split: option.splits)

theorem addMovie_rejects_invalid_witness:
  "p_title rating11 = None
   \<and> fst (addMovie rating11 lobby) = Response 400 (Message ''Invalid data'')
   \<and> docs (snd (addMovie rating11 lobby)) = [dune]
   \<and> p_rating (arrival\<lparr>p_rating := Some 11\<rparr>) = Some 11 \<and> (10::rat) < 11
   \<and> fst (addMovie (arrival\<lparr>p_rating := Some 11\<rparr>) lobby)
       = Response 400 (Message ''Invalid data'')
   \<and> docs (snd (addMovie (arrival\<lparr>p_rating := Some 11\<rparr>) lobby)) = [dune]"
proof -
  have a: "p_title rating11 = None"
    by (simp add: rating11_def)
  have b: "p_rating (arrival\<lparr>p_rating := Some 11\<rparr>) = Some 11 \<and> (10::rat) < 11"
    by simp
  then have b': "\<exists>r. p_rating (arrival\<lparr>p_rating := Some 11\<rparr>) = Some r \<and> (r < 0 \<or> 10 < r)"
    by simp
  have d: "docs lobby = [dune]"
    by (simp add: lobby_def)
  from addMovie_rejects_invalid [of rating11 lobby]
       addMovie_rejects_invalid [of "arrival\<lparr>p_rating := Some 11\<rparr>" lobby] a b b' d
  show ?thesis by simp
qed

section \<open>Properties of \<^verbatim>\<open>searchMovies\<close>\<close>

lemma compile_literal: "\<forall>c \<in> set x. \<not> is_meta c \<Longrightarrow> compile x = Some (map Lit x)"
proof (induction x)
  case Nil
  then show ?case by simp
next
  case (Cons c cs)
  then have "c \<noteq> CHR ''.''"
    by (auto simp: is_meta_def)
  with Cons show ?case by simp
qed

lemma match_here_literal:
  "match_here (map Lit x) s \<longleftrightarrow> prefix (map to_lower x) (map to_lower s)"
proof (induction x arbitrary: s)
  case Nil
  then show ?case by simp
next
  case (Cons a x)
  then show ?case by (cases s) auto
qed

lemma regex_search_literal:
  "regex_search (map Lit x) s \<longleftrightarrow> sublist (map to_lower x) (map to_lower s)"
proof (induction s)
  case Nil
  then show ?case by (simp add: match_here_literal)
next
  case (Cons c cs)
  then show ?case by (simp add: match_here_literal sublist_Cons_right)
qed

lemma regex_search_empty: "regex_search [] s"
  by (cases s) simp_all

text \<open>
  C4, as amended. For a query without regular-expression metacharacters, and the
  database answering, \<^verbatim>\<open>searchMovies\<close> returns exactly the records whose title or genre
  contains the query as a substring, letter case ignored, in store order. The empty
  query matches every record.
\<close>

theorem search_literal_query:
  assumes "\<forall>c \<in> set x. \<not> is_meta c" and "connected w"
  shows "searchMovies x w =
           Some (Response 200
                   (Movies (filter (\<lambda>m. spec_contains_ci x (title m) \<or>
                                         spec_contains_ci x (genre m)) (docs w))), w)
       \<and> searchMovies [] w = Some (Response 200 (Movies (docs w)), w)"
  using assms
  by (simp add: searchMovies_def find_regex_def compile_literal regex_search_literal
        spec_contains_ci_def regex_search_empty)

theorem search_literal_query_witness:
  "list_all (\<lambda>c. \<not> is_meta c) ''sci'' \<and> connected lobby
   \<and> searchMovies ''sci'' lobby = Some (Response 200 (Movies [dune]), lobby)
   \<and> list_all (\<lambda>c. \<not> is_meta c) ''drama''
   \<and> searchMovies ''drama'' lobby = Some (Response 200 (Movies []), lobby)
   \<and> searchMovies [] lobby = Some (Response 200 (Movies [dune]), lobby)"
proof -
  have l1: "list_all (\<lambda>c. \<not> is_meta c) ''sci''"
    by (simp add: is_meta_def)
  have l2: "list_all (\<lambda>c. \<not> is_meta c) ''drama''"
    by (simp add: is_meta_def)
  from l1 have m1: "\<forall>c \<in> set ''sci''. \<not> is_meta c"
    unfolding list_all_iff .
  from l2 have m2: "\<forall>c \<in> set ''drama''. \<not> is_meta c"
    unfolding list_all_iff .
  have c: "connected lobby"
    by (simp add: lobby_def)
  have s1: "\<not> spec_contains_ci ''sci'' ''Dune''" "spec_contains_ci ''sci'' ''Sci-Fi''"
    unfolding spec_contains_ci_def by code_simp+
  have s2: "\<not> spec_contains_ci ''drama'' ''Dune''" "\<not> spec_contains_ci ''drama'' ''Sci-Fi''"
    unfolding spec_contains_ci_def by code_simp+
  have d: "docs lobby = [dune]" "title dune = ''Dune''" "genre dune = ''Sci-Fi''"
    by (simp_all add: lobby_def dune_def)
  from search_literal_query [OF m1 c] search_literal_query [OF m2 c] c s1 s2 d
  have "searchMovies ''sci'' lobby = Some (Response 200 (Movies [dune]), lobby)"
    and "searchMovies ''drama'' lobby = Some (Response 200 (Movies []), lobby)"
    and "searchMovies [] lobby = Some (Response 200 (Movies [dune]), lobby)"
    by simp_all
  with l1 l2 c show ?thesis
    by blast
qed

text \<open>
  C4 as stated fails: the query is a regular expression, not a literal. The query
  \<^verbatim>\<open>.\<close> returns the record \<^verbatim>\<open>Dune\<close> / \<^verbatim>\<open>Sci-Fi\<close>, whose title and genre do not contain a
  full stop.
\<close>

theorem regex_wildcard_counterexample:
  "searchMovies ''.'' lobby = Some (Response 200 (Movies [dune]), lobby)
   \<and> \<not> spec_contains_ci ''.'' (title dune) \<and> \<not> spec_contains_ci ''.'' (genre dune)"
proof -
  have "\<not> spec_contains_ci ''.'' ''Dune''"
    unfolding spec_contains_ci_def by code_simp
  moreover have "\<not> spec_contains_ci ''.'' ''Sci-Fi''"
    unfolding spec_contains_ci_def by code_simp
  moreover have "searchMovies ''.'' lobby = Some (Response 200 (Movies [dune]), lobby)"
    by (simp add: searchMovies_def find_regex_def lobby_def dune_def)
  ultimately show ?thesis
    by (simp add: dune_def)
qed

section \<open>Properties of \<^verbatim>\<open>updateMovie\<close> and \<^verbatim>\<open>deleteMovie\<close>\<close>

lemma demo_id2: "castObjectId ''000000000000000000000002'' = Some 2"
  by (simp add: castObjectId_def hex_value_def)

lemma malformed_xyz: "castObjectId ''xyz'' = None"
  by (simp add: castObjectId_def)

lemma wf_world_lobby: "wf_world lobby"
  by (simp add: wf_world_def lobby_def dune_def)

lemma apply_update_id [simp]: "doc_id (apply_update p m) = doc_id m"
  by (simp add: apply_update_def)

lemma apply_update_idem [simp]: "apply_update p (apply_update p m) = apply_update p m"
  by (simp add: apply_update_def split: option.splits)

lemma apply_update_no_fields [simp]: "apply_update no_fields m = m"
  by (simp add: apply_update_def no_fields_def)

lemma update_first_None: "update_first k p ms = None \<longleftrightarrow> k \<notin> doc_id ` set ms"
  by (induction ms) (auto split: option.splits)

lemma update_first_append:
  "\<forall>x \<in> set pre. doc_id x \<noteq> k \<Longrightarrow> doc_id m = k \<Longrightarrow>
     update_first k p (pre @ m # post) = Some (apply_update p m, pre @ apply_update p m # post)"
  by (induction pre) auto

lemma update_first_SomeD:
  "update_first k p ms = Some (u, ms') \<Longrightarrow>
     \<exists>pre m post. ms = pre @ m # post \<and> (\<forall>x \<in> set pre. doc_id x \<noteq> k) \<and> doc_id m = k
        \<and> u = apply_update p m \<and> ms' = pre @ u # post"
proof (induction ms arbitrary: ms')
  case Nil
  then show ?case by simp
next
  case (Cons a ms)
  show ?case
  proof (cases "doc_id a = k")
    case True
    with Cons.prems have "u = apply_update p a" "ms' = u # ms" by auto
    with True show ?thesis by (intro exI [of _ "[]"] exI [of _ a] exI [of _ ms]) simp
  next
    case False
    with Cons.prems obtain r where r: "update_first k p ms = Some (u, r)" "ms' = a # r"
      by (auto split: option.splits)
    from Cons.IH [OF r(1)] obtain pre m post where
      "ms = pre @ m # post" "\<forall>x \<in> set pre. doc_id x \<noteq> k" "doc_id m = k"
      "u = apply_update p m" "r = pre @ u # post" by blast
    with False r(2) show ?thesis
      by (intro exI [of _ "a # pre"] exI [of _ m] exI [of _ post]) simp
  qed
qed

lemma update_first_ids:
  "update_first k p ms = Some (u, ms') \<Longrightarrow> map doc_id ms' = map doc_id ms"
  by (drule update_first_SomeD) auto

lemma delete_first_None: "delete_first k ms = None \<longleftrightarrow> k \<notin> doc_id ` set ms"
  by (induction ms) (auto split: option.splits)

lemma delete_first_SomeD:
  "delete_first k ms = Some (d, ms') \<Longrightarrow>
     \<exists>pre post. ms = pre @ d # post \<and> (\<forall>x \<in> set pre. doc_id x \<noteq> k) \<and> doc_id d = k
        \<and> ms' = pre @ post"
proof (induction ms arbitrary: ms')
  case Nil
  then show ?case by simp
next
  case (Cons a ms)
  show ?case
  proof (cases "doc_id a = k")
    case True
    with Cons.prems have "d = a" "ms' = ms" by auto
    with True show ?thesis by (intro exI [of _ "[]"] exI [of _ ms]) simp
  next
    case False
    with Cons.prems obtain r where r: "delete_first k ms = Some (d, r)" "ms' = a # r"
      by (auto split: option.splits)
    from Cons.IH [OF r(1)] obtain pre post where
      "ms = pre @ d # post" "\<forall>x \<in> set pre. doc_id x \<noteq> k" "doc_id d = k" "r = pre @ post"
      by blast
    with False r(2) show ?thesis
      by (intro exI [of _ "a # pre"] exI [of _ post]) simp
  qed
qed


lemma updateMovie_existing:
  assumes "castObjectId i = Some k" and "connected w"
    and "docs w = pre @ m # post" and "\<forall>x \<in> set pre. doc_id x \<noteq> k" and "doc_id m = k"
  shows "updateMovie i p w =
           (Response 200 (Doc (apply_update p m)), w\<lparr>docs := pre @ apply_update p m # post\<rparr>)"
  using assms update_first_append [of pre k m p post]
  by (simp add: updateMovie_def findByIdAndUpdate_def)


lemma updateMovie_200D:
  assumes "updateMovie i p w = (Response 200 (Doc m'), w')"
  shows "\<exists>k pre m post. castObjectId i = Some k \<and> connected w \<and> docs w = pre @ m # post
           \<and> doc_id m = k \<and> (\<forall>x \<in> set pre. doc_id x \<noteq> k)
           \<and> m' = apply_update p m \<and> w' = w\<lparr>docs := pre @ m' # post\<rparr>"
proof -
  from assms obtain k where k: "castObjectId i = Some k"
    by (auto simp: updateMovie_def findByIdAndUpdate_def split: option.splits)
  from assms k have c: "connected w"
    by (auto simp: updateMovie_def findByIdAndUpdate_def split: if_splits)
  from assms k c obtain ms where u: "update_first k p (docs w) = Some (m', ms)" "w' = w\<lparr>docs := ms\<rparr>"
    by (auto simp: updateMovie_def findByIdAndUpdate_def split: option.splits)
  from update_first_SomeD [OF u(1)] k c u(2) show ?thesis by blast
qed

lemma addMovie_docs:
  "addMovie b w = (r, w') \<Longrightarrow>
     oid_counter w' = Suc (oid_counter w) \<and>
     (docs w' = docs w \<or> (\<exists>m. doc_id m = oid_counter w \<and> docs w' = docs w @ [m]))"
  by (auto simp: addMovie_def new_Movie_def save_def Let_def split: if_splits option.splits)

lemma findByIdAndUpdate_docs:
  "findByIdAndUpdate i p w = Inr (x, w') \<Longrightarrow>
     oid_counter w' = oid_counter w \<and> map doc_id (docs w') = map doc_id (docs w)"
  by (auto simp: findByIdAndUpdate_def update_first_ids split: if_splits option.splits)

lemma updateMovie_docs:
  "updateMovie i p w = (r, w') \<Longrightarrow>
     oid_counter w' = oid_counter w \<and> map doc_id (docs w') = map doc_id (docs w)"
  unfolding updateMovie_def
  by (auto split: sum.splits option.splits dest: findByIdAndUpdate_docs)

lemma findByIdAndDelete_docs:
  "findByIdAndDelete i w = Inr (x, w') \<Longrightarrow>
     oid_counter w' = oid_counter w \<and>
     (docs w' = docs w \<or> (\<exists>pre d post. docs w = pre @ d # post \<and> docs w' = pre @ post))"
proof -
  assume a: "findByIdAndDelete i w = Inr (x, w')"
  then obtain k where k: "castObjectId i = Some k" "connected w"
    by (auto simp: findByIdAndDelete_def split: if_splits option.splits)
  show ?thesis
  proof (cases "delete_first k (docs w)")
    case None
    with a k show ?thesis by (simp add: findByIdAndDelete_def)
  next
    case (Some dm)
    obtain d ms where dm: "dm = (d, ms)" by (cases dm)
    from delete_first_SomeD [OF Some [unfolded dm]] obtain pre post where
      "docs w = pre @ d # post" "ms = pre @ post" by blast
    moreover from a k Some dm have "w' = w\<lparr>docs := ms\<rparr>" by (simp add: findByIdAndDelete_def)
    ultimately show ?thesis by auto
  qed
qed

lemma deleteMovie_docs:
  "deleteMovie i w = (r, w') \<Longrightarrow>
     oid_counter w' = oid_counter w \<and>
     (docs w' = docs w \<or> (\<exists>pre d post. docs w = pre @ d # post \<and> docs w' = pre @ post))"
  unfolding deleteMovie_def
  by (auto split: sum.splits option.splits dest: findByIdAndDelete_docs)

lemma searchMovies_world: "searchMovies q w = Some (r, w') \<Longrightarrow> w' = w"
  by (auto simp: searchMovies_def split: option.splits sum.splits)

lemma listMovies_world: "listMovies w = (r, w') \<Longrightarrow> w' = w"
  by (auto simp: listMovies_def split: sum.splits)

lemma effect_handler: "handler ep w = Some (r, w') \<Longrightarrow> effect ep w = w'"
  by (cases ep) (auto dest: searchMovies_world)

lemma effect_absent:
  assumes "k < oid_counter w" and "k \<notin> doc_id ` set (docs w)"
  shows "k < oid_counter (effect ep w) \<and> k \<notin> doc_id ` set (docs (effect ep w))"
proof (cases ep)
  case GET_movies
  with assms show ?thesis
    using listMovies_world [of w "fst (listMovies w)" "snd (listMovies w)"] by simp
next
  case (GET_search q)
  with assms show ?thesis by simp
next
  case (POST_movies b)
  have "addMovie b w = (fst (addMovie b w), effect ep w)"
    using POST_movies by simp
  from addMovie_docs [OF this] assms show ?thesis by auto
next
  case (PUT_movies i b)
  have "updateMovie i b w = (fst (updateMovie i b w), effect ep w)"
    using PUT_movies by simp
  from updateMovie_docs [OF this] have "oid_counter (effect ep w) = oid_counter w"
    "set (map doc_id (docs (effect ep w))) = set (map doc_id (docs w))" by simp_all
  with assms show ?thesis by simp
next
  case (DELETE_movies i)
  have "deleteMovie i w = (fst (deleteMovie i w), effect ep w)"
    using DELETE_movies by simp
  from deleteMovie_docs [OF this] assms show ?thesis by auto
qed

lemma effect_wf:
  assumes "wf_world w"
  shows "wf_world (effect ep w)"
proof (cases ep)
  case GET_movies
  with assms show ?thesis
    using listMovies_world [of w "fst (listMovies w)" "snd (listMovies w)"] by simp
next
  case (GET_search q)
  with assms show ?thesis by simp
next
  case (POST_movies b)
  have "addMovie b w = (fst (addMovie b w), effect ep w)"
    using POST_movies by simp
  from addMovie_docs [OF this] assms show ?thesis
    by (fastforce simp: wf_world_def)
next
  case (PUT_movies i b)
  have "updateMovie i b w = (fst (updateMovie i b w), effect ep w)"
    using PUT_movies by simp
  from updateMovie_docs [OF this] have e: "oid_counter (effect ep w) = oid_counter w"
    "map doc_id (docs (effect ep w)) = map doc_id (docs w)" by simp_all
  have "doc_id ` set (docs (effect ep w)) = doc_id ` set (docs w)"
    using e(2) by (metis set_map)
  then have "\<forall>m \<in> set (docs (effect ep w)). \<exists>n \<in> set (docs w). doc_id m = doc_id n"
    by (metis imageE imageI)
  with e assms show ?thesis by (fastforce simp: wf_world_def)
next
  case (DELETE_movies i)
  have "deleteMovie i w = (fst (deleteMovie i w), effect ep w)"
    using DELETE_movies by simp
  from deleteMovie_docs [OF this] assms show ?thesis
    by (auto simp: wf_world_def)
qed

lemma wf_world_empty: "wf_world \<lparr>docs = [], oid_counter = n, connected = c\<rparr>"
  by (simp add: wf_world_def)

lemma serve_wf: "wf_world w \<Longrightarrow> wf_world (serve eps w)"
  by (induction eps arbitrary: w) (simp_all add: effect_wf)

lemma serve_absent:
  "k < oid_counter w \<Longrightarrow> k \<notin> doc_id ` set (docs w) \<Longrightarrow>
     k \<notin> doc_id ` set (docs (serve eps w))"
proof (induction eps arbitrary: w)
  case Nil
  then show ?case by simp
next
  case (Cons ep eps)
  from effect_absent [OF Cons.prems, of ep] Cons.IH [of "effect ep w"] show ?case
    by simp
qed

lemma deleteMovie_existing:
  assumes "castObjectId i = Some k" and "connected w" and "k \<in> doc_id ` set (docs w)"
  shows "\<exists>pre d post. docs w = pre @ d # post \<and> doc_id d = k
           \<and> (\<forall>x \<in> set pre. doc_id x \<noteq> k)
           \<and> deleteMovie i w =
               (Response 200 (Message ''Movie deleted successfully''), w\<lparr>docs := pre @ post\<rparr>)"
proof -
  from assms(3) have "delete_first k (docs w) \<noteq> None" by (simp add: delete_first_None)
  then obtain d ms where d: "delete_first k (docs w) = Some (d, ms)" by auto
  from delete_first_SomeD [OF d] obtain pre post where
    s: "docs w = pre @ d # post" "\<forall>x \<in> set pre. doc_id x \<noteq> k" "doc_id d = k" "ms = pre @ post"
    by blast
  have "deleteMovie i w =
          (Response 200 (Message ''Movie deleted successfully''), w\<lparr>docs := pre @ post\<rparr>)"
    using assms(1,2) d s(4) by (simp add: deleteMovie_def findByIdAndDelete_def)
  with s show ?thesis by blast
qed

text \<open>
  C3. Evaluation at the input where the code and the claim part: an update of an
  existing record with the body \<^verbatim>\<open>{"rating": 11}\<close> is answered 200, and the record is
  stored with rating 11, which the schema rejects.
\<close>

theorem update_skips_schema_validation:
  "updateMovie ''000000000000000000000001'' rating11 lobby
     = (Response 200 (Doc (dune\<lparr>rating := 11\<rparr>)), lobby\<lparr>docs := [dune\<lparr>rating := 11\<rparr>]\<rparr>)
   \<and> \<not> MovieSchema (fields_of (dune\<lparr>rating := 11\<rparr>))"
  by (simp add: updateMovie_def findByIdAndUpdate_def demo_id lobby_def dune_def rating11_def
        apply_update_def MovieSchema_def fields_of_def)



text \<open>
  C10. When \<^verbatim>\<open>updateMovie\<close> answers 200 with a record, that record is the first record
  of the requested id with exactly the fields named in the body replaced by the body's
  values and every other field, and the \<^verbatim>\<open>_id\<close>, as before; it takes the old record's
  place in the collection, and the records before and after it are the same. An empty
  body on an existing id, the database answering, is answered 200 with the record as it
  was, and the world does not change.
\<close>

theorem update_changes_only_named_fields:
  "(updateMovie i p w = (Response 200 (Doc m'), w') \<longrightarrow>
      (\<exists>pre m post. docs w = pre @ m # post \<and> castObjectId i = Some (doc_id m)
          \<and> (\<forall>x \<in> set pre. doc_id x \<noteq> doc_id m)
          \<and> docs w' = pre @ m' # post
          \<and> doc_id m' = doc_id m
          \<and> title m' = (case p_title p of None \<Rightarrow> title m | Some t \<Rightarrow> t)
          \<and> genre m' = (case p_genre p of None \<Rightarrow> genre m | Some g \<Rightarrow> g)
          \<and> rating m' = (case p_rating p of None \<Rightarrow> rating m | Some r \<Rightarrow> r)
          \<and> streamingLink m' = (case p_streamingLink p of None \<Rightarrow> streamingLink m | Some l \<Rightarrow> l)
          \<and> oid_counter w' = oid_counter w \<and> connected w' = connected w))
 \<and> (connected w \<and> castObjectId i = Some k \<and> docs w = pre0 @ m0 # post0 \<and> doc_id m0 = k
      \<and> (\<forall>x \<in> set pre0. doc_id x \<noteq> k) \<longrightarrow>
      updateMovie i no_fields w = (Response 200 (Doc m0), w))"
proof (intro conjI impI)
  assume "updateMovie i p w = (Response 200 (Doc m'), w')"
  from updateMovie_200D [OF this] obtain k pre m post where
    s: "castObjectId i = Some k" "connected w" "docs w = pre @ m # post" "doc_id m = k"
       "\<forall>x \<in> set pre. doc_id x \<noteq> k" "m' = apply_update p m" "w' = w\<lparr>docs := pre @ m' # post\<rparr>"
    by blast
  then show "\<exists>pre m post. docs w = pre @ m # post \<and> castObjectId i = Some (doc_id m)
          \<and> (\<forall>x \<in> set pre. doc_id x \<noteq> doc_id m)
          \<and> docs w' = pre @ m' # post
          \<and> doc_id m' = doc_id m
          \<and> title m' = (case p_title p of None \<Rightarrow> title m | Some t \<Rightarrow> t)
          \<and> genre m' = (case p_genre p of None \<Rightarrow> genre m | Some g \<Rightarrow> g)
          \<and> rating m' = (case p_rating p of None \<Rightarrow> rating m | Some r \<Rightarrow> r)
          \<and> streamingLink m' = (case p_streamingLink p of None \<Rightarrow> streamingLink m | Some l \<Rightarrow> l)
          \<and> oid_counter w' = oid_counter w \<and> connected w' = connected w"
    by (intro exI [of _ pre] exI [of _ m] exI [of _ post]) (simp add: apply_update_def)
next
  assume a: "connected w \<and> castObjectId i = Some k \<and> docs w = pre0 @ m0 # post0 \<and> doc_id m0 = k
      \<and> (\<forall>x \<in> set pre0. doc_id x \<noteq> k)"
  then have "updateMovie i no_fields w =
           (Response 200 (Doc (apply_update no_fields m0)),
            w\<lparr>docs := pre0 @ apply_update no_fields m0 # post0\<rparr>)"
    by (intro updateMovie_existing) auto
  moreover from a have "w\<lparr>docs := pre0 @ m0 # post0\<rparr> = w" by simp
  ultimately show "updateMovie i no_fields w = (Response 200 (Doc m0), w)" by simp
qed

theorem update_changes_only_named_fields_witness:
  "updateMovie ''000000000000000000000001'' rating11 lobby
     = (Response 200 (Doc (dune\<lparr>rating := 11\<rparr>)), lobby\<lparr>docs := [dune\<lparr>rating := 11\<rparr>]\<rparr>)
   \<and> (\<exists>pre m post. docs lobby = pre @ m # post
         \<and> castObjectId ''000000000000000000000001'' = Some (doc_id m)
         \<and> docs (lobby\<lparr>docs := [dune\<lparr>rating := 11\<rparr>]\<rparr>) = pre @ dune\<lparr>rating := 11\<rparr> # post
         \<and> title (dune\<lparr>rating := 11\<rparr>) = title m
         \<and> genre (dune\<lparr>rating := 11\<rparr>) = genre m
         \<and> rating (dune\<lparr>rating := 11\<rparr>) = 11
         \<and> streamingLink (dune\<lparr>rating := 11\<rparr>) = streamingLink m)
   \<and> connected lobby \<and> castObjectId ''000000000000000000000001'' = Some 1
   \<and> docs lobby = [] @ dune # [] \<and> doc_id dune = 1
   \<and> updateMovie ''000000000000000000000001'' no_fields lobby = (Response 200 (Doc dune), lobby)"
proof -
  let ?i = "''000000000000000000000001''"
  have h: "updateMovie ?i rating11 lobby
     = (Response 200 (Doc (dune\<lparr>rating := 11\<rparr>)), lobby\<lparr>docs := [dune\<lparr>rating := 11\<rparr>]\<rparr>)"
    by (simp add: updateMovie_def findByIdAndUpdate_def demo_id lobby_def dune_def rating11_def
          apply_update_def)
  have f: "p_title rating11 = None" "p_genre rating11 = None" "p_rating rating11 = Some 11"
    "p_streamingLink rating11 = None"
    by (simp_all add: rating11_def)
  have c: "connected lobby" "docs lobby = [] @ dune # []" "doc_id dune = 1"
    by (simp_all add: lobby_def dune_def)
  note t = update_changes_only_named_fields
    [where i = ?i and p = rating11 and w = lobby and m' = "dune\<lparr>rating := 11\<rparr>"
       and w' = "lobby\<lparr>docs := [dune\<lparr>rating := 11\<rparr>]\<rparr>" and k = 1 and ?pre0.0 = "[]"
       and ?m0.0 = dune and ?post0.0 = "[]"]
  from t h have "\<exists>pre m post. docs lobby = pre @ m # post
         \<and> castObjectId ?i = Some (doc_id m)
         \<and> docs (lobby\<lparr>docs := [dune\<lparr>rating := 11\<rparr>]\<rparr>) = pre @ dune\<lparr>rating := 11\<rparr> # post
         \<and> title (dune\<lparr>rating := 11\<rparr>) = title m
         \<and> genre (dune\<lparr>rating := 11\<rparr>) = genre m
         \<and> rating (dune\<lparr>rating := 11\<rparr>) = 11
         \<and> streamingLink (dune\<lparr>rating := 11\<rparr>) = streamingLink m"
    by (simp add: f) blast
  moreover from t c demo_id
  have "updateMovie ?i no_fields lobby = (Response 200 (Doc dune), lobby)"
    by simp
  ultimately show ?thesis
    using h c demo_id by simp
qed

text \<open>
  C9. For an id that cannot be cast to a document id, the lookup throws: \<^verbatim>\<open>updateMovie\<close>
  answers 400 \<^verbatim>\<open>Invalid data\<close> and \<^verbatim>\<open>deleteMovie\<close> answers 500 \<^verbatim>\<open>Server error\<close>; neither
  answers 404, although no record has that id; the world does not change.
\<close>

theorem malformed_id_never_404:
  assumes "castObjectId i = None"
  shows "findByIdAndUpdate i b w = Inl CastError
       \<and> findByIdAndDelete i w = Inl CastError
       \<and> updateMovie i b w = (Response 400 (Message ''Invalid data''), w)
       \<and> deleteMovie i w = (Response 500 (Message ''Server error''), w)
       \<and> status (fst (updateMovie i b w)) \<noteq> 404
       \<and> status (fst (deleteMovie i w)) \<noteq> 404
       \<and> (\<forall>m \<in> set (docs w). castObjectId i \<noteq> Some (doc_id m))"
  using assms
  by (simp add: findByIdAndUpdate_def findByIdAndDelete_def updateMovie_def deleteMovie_def)

theorem malformed_id_never_404_witness:
  "castObjectId ''xyz'' = None
   \<and> findByIdAndUpdate ''xyz'' rating11 lobby = Inl CastError
   \<and> findByIdAndDelete ''xyz'' lobby = Inl CastError
   \<and> updateMovie ''xyz'' rating11 lobby = (Response 400 (Message ''Invalid data''), lobby)
   \<and> deleteMovie ''xyz'' lobby = (Response 500 (Message ''Server error''), lobby)
   \<and> castObjectId ''xyz'' \<noteq> Some (doc_id dune)"
  using malformed_id_never_404 [OF malformed_xyz, of rating11 lobby] malformed_xyz
  by simp

text \<open>
  C8, as amended. \<^verbatim>\<open>deleteMovie\<close> answers 500 when the store call throws, that is when
  the id cannot be cast to a document id or the database does not answer. For an id
  that can be cast, the database answering: when no record has the id, it answers 404
  and nothing changes; when a record has it, it answers 200 with the confirmation
  message, the record is removed and the others stay, in order. The removal is for
  good: a second delete of that id is answered 404, and after any sequence of further
  requests whatever no record has that id. (\<open>wf_world\<close>, unique ids handed out by the
  generator, holds in every world the service reaches from an empty collection.)
\<close>

theorem deleteMovie_outcomes:
  "(castObjectId i = None \<or> \<not> connected w \<longrightarrow>
      deleteMovie i w = (Response 500 (Message ''Server error''), w))
 \<and> (connected w \<and> castObjectId i = Some k \<and> k \<notin> doc_id ` set (docs w) \<longrightarrow>
      deleteMovie i w = (Response 404 (Message ''Movie not found''), w))
 \<and> (connected w \<and> castObjectId i = Some k \<and> k \<in> doc_id ` set (docs w) \<and> wf_world w \<longrightarrow>
      (\<exists>w'. deleteMovie i w = (Response 200 (Message ''Movie deleted successfully''), w')
          \<and> docs w' = filter (\<lambda>m. doc_id m \<noteq> k) (docs w)
          \<and> length (docs w') + 1 = length (docs w)
          \<and> deleteMovie i w' = (Response 404 (Message ''Movie not found''), w')
          \<and> (\<forall>eps. k \<notin> doc_id ` set (docs (serve eps w')))))"
proof (intro conjI impI)
  assume "castObjectId i = None \<or> \<not> connected w"
  then show "deleteMovie i w = (Response 500 (Message ''Server error''), w)"
    by (auto simp: deleteMovie_def findByIdAndDelete_def split: option.splits)
next
  assume "connected w \<and> castObjectId i = Some k \<and> k \<notin> doc_id ` set (docs w)"
  then show "deleteMovie i w = (Response 404 (Message ''Movie not found''), w)"
    using delete_first_None [of k "docs w"]
    by (simp add: deleteMovie_def findByIdAndDelete_def)
next
  assume a: "connected w \<and> castObjectId i = Some k \<and> k \<in> doc_id ` set (docs w) \<and> wf_world w"
  then obtain pre d post where
    s: "docs w = pre @ d # post" "doc_id d = k" "\<forall>x \<in> set pre. doc_id x \<noteq> k"
       "deleteMovie i w =
          (Response 200 (Message ''Movie deleted successfully''), w\<lparr>docs := pre @ post\<rparr>)"
    using deleteMovie_existing [of i k w] by blast
  let ?w' = "w\<lparr>docs := pre @ post\<rparr>"
  from a have "distinct (map doc_id (docs w))"
    by (simp add: wf_world_def)
  then have "doc_id d \<notin> doc_id ` set post"
    by (simp add: s(1))
  then have post: "\<forall>x \<in> set post. doc_id x \<noteq> k"
    using s(2) by (metis imageI)
  from s(3) post have f: "filter (\<lambda>m. doc_id m \<noteq> k) (docs w) = pre @ post"
    by (simp add: s(1) s(2))
  have gone: "k \<notin> doc_id ` set (docs ?w')"
    using s(3) post by auto
  have below: "k < oid_counter ?w'"
    using a s(1,2) by (auto simp: wf_world_def)
  have again: "deleteMovie i ?w' = (Response 404 (Message ''Movie not found''), ?w')"
    using a gone delete_first_None [of k "docs ?w'"]
    by (simp add: deleteMovie_def findByIdAndDelete_def)
  have forever: "\<forall>eps. k \<notin> doc_id ` set (docs (serve eps ?w'))"
    using serve_absent [OF below gone] by blast
  show "\<exists>w'. deleteMovie i w = (Response 200 (Message ''Movie deleted successfully''), w')
          \<and> docs w' = filter (\<lambda>m. doc_id m \<noteq> k) (docs w)
          \<and> length (docs w') + 1 = length (docs w)
          \<and> deleteMovie i w' = (Response 404 (Message ''Movie not found''), w')
          \<and> (\<forall>eps. k \<notin> doc_id ` set (docs (serve eps w')))"
    using s(4) f again forever by (intro exI [of _ ?w']) (simp add: s(1))
qed

theorem deleteMovie_outcomes_witness:
  "castObjectId ''xyz'' = None
   \<and> deleteMovie ''xyz'' lobby = (Response 500 (Message ''Server error''), lobby)
   \<and> connected lobby \<and> castObjectId ''000000000000000000000002'' = Some 2
   \<and> 2 \<notin> doc_id ` set (docs lobby)
   \<and> deleteMovie ''000000000000000000000002'' lobby
       = (Response 404 (Message ''Movie not found''), lobby)
   \<and> castObjectId ''000000000000000000000001'' = Some 1
   \<and> 1 \<in> doc_id ` set (docs lobby) \<and> wf_world lobby
   \<and> (\<exists>w'. deleteMovie ''000000000000000000000001'' lobby
              = (Response 200 (Message ''Movie deleted successfully''), w')
          \<and> docs w' = []
          \<and> deleteMovie ''000000000000000000000001'' w'
              = (Response 404 (Message ''Movie not found''), w')
          \<and> 1 \<notin> doc_id ` set (docs (serve [GET_search ''a+'', POST_movies arrival,
                                              PUT_movies ''000000000000000000000001'' rating11]
                                         w')))"
proof -
  have c: "connected lobby"
    by (simp add: lobby_def)
  have n: "2 \<notin> doc_id ` set (docs lobby)" and y: "1 \<in> doc_id ` set (docs lobby)"
    by (simp_all add: lobby_def dune_def)
  have f: "filter (\<lambda>m. doc_id m \<noteq> 1) (docs lobby) = []"
    by (simp add: lobby_def dune_def)
  from deleteMovie_outcomes [of "''xyz''" lobby] malformed_xyz
  have a: "deleteMovie ''xyz'' lobby = (Response 500 (Message ''Server error''), lobby)"
    by simp
  from deleteMovie_outcomes [of "''000000000000000000000002''" lobby 2] c n demo_id2
  have b: "deleteMovie ''000000000000000000000002'' lobby
             = (Response 404 (Message ''Movie not found''), lobby)"
    by simp
  from deleteMovie_outcomes [of "''000000000000000000000001''" lobby 1] c y demo_id wf_world_lobby
  obtain w' where
    w': "deleteMovie ''000000000000000000000001'' lobby
           = (Response 200 (Message ''Movie deleted successfully''), w')"
        "docs w' = filter (\<lambda>m. doc_id m \<noteq> 1) (docs lobby)"
        "deleteMovie ''000000000000000000000001'' w'
           = (Response 404 (Message ''Movie not found''), w')"
        "\<forall>eps. 1 \<notin> doc_id ` set (docs (serve eps w'))"
    by blast
  from w'(2) f have "docs w' = []"
    by simp
  with w'(1,3,4)
  have "\<exists>w'. deleteMovie ''000000000000000000000001'' lobby
              = (Response 200 (Message ''Movie deleted successfully''), w')
          \<and> docs w' = []
          \<and> deleteMovie ''000000000000000000000001'' w'
              = (Response 404 (Message ''Movie not found''), w')
          \<and> 1 \<notin> doc_id ` set (docs (serve [GET_search ''a+'', POST_movies arrival,
                                              PUT_movies ''000000000000000000000001'' rating11]
                                         w'))"
    by blast
  with a b c n y malformed_xyz demo_id demo_id2 wf_world_lobby show ?thesis
    by blast
qed

text \<open>
  C8 as stated fails: no record has the id \<^verbatim>\<open>xyz\<close> and the database answers, yet
  \<^verbatim>\<open>deleteMovie\<close> answers 500 \<^verbatim>\<open>Server error\<close>, not 404, because the id cannot be cast
  to a document id and the lookup throws.
\<close>

theorem malformed_id_delete_500_counterexample:
  "docs lobby = [dune] \<and> castObjectId ''xyz'' \<noteq> Some (doc_id dune)
   \<and> castObjectId ''xyz'' = None \<and> connected lobby
   \<and> deleteMovie ''xyz'' lobby = (Response 500 (Message ''Server error''), lobby)
   \<and> status (fst (deleteMovie ''xyz'' lobby)) \<noteq> 404"
  by (simp add: deleteMovie_def findByIdAndDelete_def malformed_xyz lobby_def)

end
